theory Spec2Isabelle
  imports Complex_Main
begin

section \<open>Values of the Python program\<close>

text \<open>
  The values a document, a form field or a response can hold. A float is a finite one,
  read as the real number it denotes (the only operation the program applies to a price is
  the comparison with zero). \<open>PObjectId\<close> carries the hexadecimal text of a store
  identifier, \<open>PDatetime\<close> a timestamp.
\<close>

datatype pyval =
    PNone
  | PBool bool
  | PInt int
  | PFloat real
  | PStr string
  | PList "pyval list"
  | PDict "(string \<times> pyval) list"
  | PObjectId string
  | PDatetime int

type_synonym pydict = "string \<rightharpoonup> pyval"

text \<open>Python's truth value of an object, as \<open>if x\<close> tests it.\<close>

fun truthy :: "pyval \<Rightarrow> bool" where
  "truthy PNone = False"
| "truthy (PBool b) = b"
| "truthy (PInt i) = (i \<noteq> 0)"
| "truthy (PFloat r) = (r \<noteq> 0)"
| "truthy (PStr s) = (s \<noteq> [])"
| "truthy (PList xs) = (xs \<noteq> [])"
| "truthy (PDict kvs) = (kvs \<noteq> [])"
| "truthy (PObjectId h) = True"
| "truthy (PDatetime t) = True"

text \<open>
  \<open>str(x)\<close>: a string is itself and an ObjectId is its hexadecimal text. The text of
  every other value is what the builtin prints, taken as the parameter \<open>text_of\<close>.
\<close>

fun py_str :: "(pyval \<Rightarrow> string) \<Rightarrow> pyval \<Rightarrow> string" where
  "py_str text_of (PStr s) = s"
| "py_str text_of (PObjectId h) = h"
| "py_str text_of v = text_of v"

text \<open>\<open>d.get(k)\<close> and \<open>d.get(k, default)\<close> on a dict.\<close>

definition dict_get :: "pydict \<Rightarrow> string \<Rightarrow> pyval" where
  "dict_get d k = (case d k of None \<Rightarrow> PNone | Some v \<Rightarrow> v)"

definition dict_get_default :: "pydict \<Rightarrow> string \<Rightarrow> pyval \<Rightarrow> pyval" where
  "dict_get_default d k dflt = (case d k of None \<Rightarrow> dflt | Some v \<Rightarrow> v)"

section \<open>schemas.py: the Vehicle model\<close>

record vehicle =
  make_v :: string
  model :: string
  year :: int
  price :: real
  description :: "string option"
  image_urls :: "string list"

text \<open>
  The constructor \<open>Vehicle(...)\<close> on arguments of the handler's declared types. The
  only constraints of the model are \<open>ge=1900, le=2100\<close> on \<open>year\<close> and \<open>ge=0\<close> on
  \<open>price\<close>; a failure is the list of (field, error type) pairs of the ValidationError.
  The field \<open>make\<close> is \<open>make_v\<close> here (a record reserves the name \<open>make\<close>).
\<close>

definition year_errors :: "int \<Rightarrow> (string \<times> string) list" where
  "year_errors y =
     (if \<not> y \<ge> 1900 then [(''year'', ''greater_than_equal'')]
      else if \<not> y \<le> 2100 then [(''year'', ''less_than_equal'')]
      else [])"

definition price_errors :: "real \<Rightarrow> (string \<times> string) list" where
  "price_errors p = (if \<not> p \<ge> 0 then [(''price'', ''greater_than_equal'')] else [])"

definition Vehicle ::
  "string \<Rightarrow> string \<Rightarrow> int \<Rightarrow> real \<Rightarrow> string option \<Rightarrow> string list
     \<Rightarrow> (string \<times> string) list + vehicle" where
  "Vehicle mk md y p d urls =
     (let errs = year_errors y @ price_errors p
      in if errs = [] then
           Inr \<lparr>make_v = mk, model = md, year = y, price = p, description = d, image_urls = urls\<rparr>
         else Inl errs)"

text \<open>\<open>vehicle.model_dump()\<close>: the fields as a dict.\<close>

definition opt_str :: "string option \<Rightarrow> pyval" where
  "opt_str d = (case d of None \<Rightarrow> PNone | Some s \<Rightarrow> PStr s)"

definition model_dump :: "vehicle \<Rightarrow> pydict" where
  "model_dump v =
     [''make'' \<mapsto> PStr (make_v v),
      ''model'' \<mapsto> PStr (model v),
      ''year'' \<mapsto> PInt (year v),
      ''price'' \<mapsto> PFloat (price v),
      ''description'' \<mapsto> opt_str (description v),
      ''image_urls'' \<mapsto> PList (map PStr (image_urls v))]"

section \<open>Library functions that main.py calls\<close>

text \<open>\<open>uuid4().hex\<close> is \<open>'%032x' % self.int\<close>: 32 lower-case hexadecimal digits.\<close>

definition hex_digit :: "nat \<Rightarrow> char" where
  "hex_digit d = ''0123456789abcdef'' ! (d mod 16)"

fun hex_of :: "nat \<Rightarrow> nat \<Rightarrow> string" where
  "hex_of 0 n = []"
| "hex_of (Suc k) n = hex_of k (n div 16) @ [hex_digit (n mod 16)]"

text \<open>\<open>p.rfind(c)\<close>: the index of the last occurrence of \<open>c\<close>, or \<open>-1\<close>.\<close>

fun rfind_from :: "char \<Rightarrow> string \<Rightarrow> int \<Rightarrow> int \<Rightarrow> int" where
  "rfind_from c [] i best = best"
| "rfind_from c (x # xs) i best = rfind_from c xs (i + 1) (if x = c then i else best)"

definition rfind :: "string \<Rightarrow> char \<Rightarrow> int" where
  "rfind p c = rfind_from c p 0 (- 1)"

text \<open>
  \<open>os.path.splitext\<close> (posixpath, through \<open>genericpath._splitext\<close> with separator
  \<open>/\<close>, no alternative separator and extension separator \<open>.\<close>):
  \<^verbatim>\<open>
    sepIndex = p.rfind(sep)
    dotIndex = p.rfind(extsep)
    if dotIndex > sepIndex:
        filenameIndex = sepIndex + 1
        while filenameIndex < dotIndex:
            if p[filenameIndex:filenameIndex+1] != extsep:
                return p[:dotIndex], p[dotIndex:]
            filenameIndex += 1
    return p, p[:0]
  \<close>
\<close>

function splitext_loop :: "string \<Rightarrow> int \<Rightarrow> int \<Rightarrow> string \<times> string" where
  "splitext_loop p filenameIndex dotIndex =
     (if filenameIndex < dotIndex then
        (if take 1 (drop (nat filenameIndex) p) \<noteq> ''.'' then
           (take (nat dotIndex) p, drop (nat dotIndex) p)
         else splitext_loop p (filenameIndex + 1) dotIndex)
      else (p, []))"
  by pat_completeness auto
termination
  by (relation "measure (\<lambda>(p, i, d). nat (d - i))") auto

declare splitext_loop.simps [simp del]

definition os_path_splitext :: "string \<Rightarrow> string \<times> string" where
  "os_path_splitext p =
     (let sepIndex = rfind p CHR ''/'';
          dotIndex = rfind p CHR ''.''
      in if dotIndex > sepIndex then splitext_loop p (sepIndex + 1) dotIndex else (p, []))"

text \<open>
  \<open>os.path.join(a, b)\<close> (posixpath): an absolute \<open>b\<close> replaces \<open>a\<close>; otherwise
  \<open>b\<close> is appended, after a separator unless \<open>a\<close> is empty or ends with one.
\<close>

definition os_path_join :: "string \<Rightarrow> string \<Rightarrow> string" where
  "os_path_join a b =
     (if take 1 b = ''/'' then b
      else if a = [] \<or> drop (length a - 1) a = ''/'' then a @ b
      else a @ ''/'' @ b)"

section \<open>main.py: the world the handlers run in\<close>

text \<open>
  What opening \<open>dest_path\<close> for writing and copying the upload into it does: the file
  is written; or \<open>open\<close> raises (message); or the copy raises after part of the
  bytes reached the file (the part, message).
\<close>

datatype io_result = Written | OpenFailed string | CopyFailed string string

text \<open>
  The mutable world: the file system (path to bytes), the number of \<open>uuid4()\<close> calls made so
  far, and the state of the document store.
\<close>

record 'db world =
  files :: "string \<rightharpoonup> string"
  uuid_calls :: nat
  db :: 'db

text \<open>
  What the program takes from outside: the working directory, the random source (the value
  of the k-th \<open>uuid4()\<close>), the behaviour of the disk, the text the builtin \<open>str\<close> gives
  for a value that is neither a string nor an ObjectId, and the two functions imported from
  the module \<open>database\<close>. \<open>create_document\<close> returns the exception's message (Inl) or the
  inserted identifier, with the new state of the store; \<open>get_documents\<close> returns the
  exception's message or the documents.
\<close>

record 'db env =
  cwd :: string
  uuid4_int :: "nat \<Rightarrow> nat"
  disk :: "(string \<rightharpoonup> string) \<Rightarrow> string \<Rightarrow> string \<Rightarrow> io_result"
  text_other :: "pyval \<Rightarrow> string"
  create_document :: "string \<Rightarrow> vehicle \<Rightarrow> 'db \<Rightarrow> (string + pyval) \<times> 'db"
  get_documents :: "string \<Rightarrow> (string \<times> pyval) list \<Rightarrow> nat option \<Rightarrow> 'db \<Rightarrow> string + pydict list"

datatype exn =
    HTTPException nat string
  | ValidationError "(string \<times> string) list"

text \<open>An upload: its client-supplied name and the bytes of \<open>img.file\<close>.\<close>

record UploadFile =
  filename :: "string option"
  file_bytes :: string

text \<open>The text of the k-th UUID, and \<open>uuid4().hex\<close>: the next one of the source.\<close>

definition uuid_hex_at :: "'db env \<Rightarrow> nat \<Rightarrow> string" where
  "uuid_hex_at e k = hex_of 32 (uuid4_int e k mod 2 ^ 128)"

definition uuid4_hex :: "'db env \<Rightarrow> 'db world \<Rightarrow> string \<times> 'db world" where
  "uuid4_hex e w = (uuid_hex_at e (uuid_calls w), w\<lparr>uuid_calls := Suc (uuid_calls w)\<rparr>)"

definition UPLOAD_DIR :: "'db env \<Rightarrow> string" where
  "UPLOAD_DIR e = os_path_join (cwd e) ''uploads''"

section \<open>main.py: serialize_vehicle and list_vehicles\<close>

definition serialize_vehicle :: "(pyval \<Rightarrow> string) \<Rightarrow> pydict \<Rightarrow> pydict" where
  "serialize_vehicle t doc =
     [''id'' \<mapsto> (if truthy (dict_get doc ''_id'')
                 then PStr (py_str t (dict_get doc ''_id'')) else PNone),
      ''make'' \<mapsto> dict_get doc ''make'',
      ''model'' \<mapsto> dict_get doc ''model'',
      ''year'' \<mapsto> dict_get doc ''year'',
      ''price'' \<mapsto> dict_get doc ''price'',
      ''description'' \<mapsto> dict_get doc ''description'',
      ''image_urls'' \<mapsto> dict_get_default doc ''image_urls'' (PList []),
      ''created_at'' \<mapsto> dict_get doc ''created_at'']"

definition list_vehicles :: "'db env \<Rightarrow> 'db world \<Rightarrow> exn + pydict list" where
  "list_vehicles e w =
     (case get_documents e ''vehicle'' [] None (db w) of
        Inl msg \<Rightarrow> Inl (HTTPException 500 msg)
      | Inr docs \<Rightarrow> Inr (map (serialize_vehicle (text_other e)) docs))"

section \<open>main.py: create_vehicle\<close>

text \<open>\<open>img.filename or f"image-{uuid4().hex}"\<close>: the second operand runs only when the
  first is None or empty.\<close>

definition filename_or_image :: "'db env \<Rightarrow> 'db world \<Rightarrow> UploadFile \<Rightarrow> string \<times> 'db world" where
  "filename_or_image e w img =
     (case filename img of
        Some f \<Rightarrow> if f \<noteq> [] then (f, w)
                  else (let (h, w1) = uuid4_hex e w in (''image-'' @ h, w1))
      | None \<Rightarrow> (let (h, w1) = uuid4_hex e w in (''image-'' @ h, w1)))"

definition ext_or_jpg :: "string \<Rightarrow> string" where
  "ext_or_jpg fname = (let x = snd (os_path_splitext fname) in if x \<noteq> [] then x else ''.jpg'')"

text \<open>
  The name an upload is stored under: \<open>filename\<close>, \<open>ext\<close> and \<open>safe_name\<close> of
  the loop's body.
\<close>

definition safe_name_for :: "'db env \<Rightarrow> 'db world \<Rightarrow> UploadFile \<Rightarrow> string \<times> 'db world" where
  "safe_name_for e w img =
     (let (fname, w1) = filename_or_image e w img;
          ext = ext_or_jpg fname;
          (h, w2) = uuid4_hex e w1
      in (h @ ext, w2))"

text \<open>The body of the loop over \<open>images\<close>: the public URL, or the HTTPException raised.\<close>

definition save_image :: "'db env \<Rightarrow> 'db world \<Rightarrow> UploadFile \<Rightarrow> (exn + string) \<times> 'db world" where
  "save_image e w img =
     (let (safe_name, w2) = safe_name_for e w img;
          dest_path = os_path_join (UPLOAD_DIR e) safe_name
      in case disk e (files w2) dest_path (file_bytes img) of
           Written \<Rightarrow>
             (Inr (''/uploads/'' @ safe_name),
              w2\<lparr>files := (files w2)(dest_path \<mapsto> file_bytes img)\<rparr>)
         | OpenFailed msg \<Rightarrow>
             (Inl (HTTPException 500 (''Failed to save image: '' @ msg)), w2)
         | CopyFailed part msg \<Rightarrow>
             (Inl (HTTPException 500 (''Failed to save image: '' @ msg)),
              w2\<lparr>files := (files w2)(dest_path \<mapsto> part)\<rparr>))"

fun save_images ::
  "'db env \<Rightarrow> 'db world \<Rightarrow> UploadFile list \<Rightarrow> string list \<Rightarrow> (exn + string list) \<times> 'db world" where
  "save_images e w [] urls = (Inr urls, w)"
| "save_images e w (img # imgs) urls =
     (case save_image e w img of
        (Inl x, w') \<Rightarrow> (Inl x, w')
      | (Inr url, w') \<Rightarrow> save_images e w' imgs (urls @ [url]))"

definition create_vehicle ::
  "'db env \<Rightarrow> 'db world \<Rightarrow> string \<Rightarrow> string \<Rightarrow> int \<Rightarrow> real \<Rightarrow> string option
     \<Rightarrow> UploadFile list option \<Rightarrow> (exn + pydict) \<times> 'db world" where
  "create_vehicle e w mk md y p d images =
     (case (case images of
              None \<Rightarrow> (Inr [], w)
            | Some imgs \<Rightarrow> if imgs \<noteq> [] then save_images e w imgs [] else (Inr [], w)) of
        (Inl x, w1) \<Rightarrow> (Inl x, w1)
      | (Inr urls, w1) \<Rightarrow>
          (case Vehicle mk md y p d urls of
             Inl errs \<Rightarrow> (Inl (ValidationError errs), w1)
           | Inr v \<Rightarrow>
               (case create_document e ''vehicle'' v (db w1) of
                  (Inl msg, db') \<Rightarrow> (Inl (HTTPException 500 msg), w1\<lparr>db := db'\<rparr>)
                | (Inr inserted_id, db') \<Rightarrow>
                    (Inr ([''id'' \<mapsto> inserted_id] ++ model_dump v), w1\<lparr>db := db'\<rparr>))))"

section \<open>The storage adapter (module database)\<close>

text \<open>
  Modelled from the spec: the document store behind the module \<open>database\<close>, which is
  not among the sources. Its state: whether it is out of reach (with the message of the
  failure it then signals), the documents of each collection in insertion order, the number
  of identifiers generated so far, and the timestamp the adapter puts into a new document
  when it populates one. An empty store holds no document in any collection.
\<close>

record store =
  outage :: "string option"
  collections :: "string \<Rightarrow> pydict list"
  generated :: nat
  clock :: "pyval option"

definition empty_store :: "nat \<Rightarrow> pyval option \<Rightarrow> store" where
  "empty_store n c = \<lparr>outage = None, collections = (\<lambda>name. []), generated = n, clock = c\<rparr>"

text \<open>
  Modelled from the spec: \<open>create_document\<close> of the module \<open>database\<close>, which is not
  among the sources. The spec's \<open>insert(collection_name, record) -> identifier\<close>:
  the record is serialized to a document and inserted once into the named collection, and
  the store-generated unique identifier is returned, as text; the stored document holds the
  record's fields, the generated identifier under \<open>_id\<close> and a creation timestamp when the
  adapter populates one; an unreachable store signals a failure and nothing is inserted.
  The k-th identifier is the ObjectId whose text is k in 24 hexadecimal digits.
\<close>

definition create_document_spec :: "string \<Rightarrow> vehicle \<Rightarrow> store \<Rightarrow> (string + pyval) \<times> store" where
  "create_document_spec name v s =
     (case outage s of
        Some msg \<Rightarrow> (Inl msg, s)
      | None \<Rightarrow>
          (let oid = hex_of 24 (generated s);
               stamp = (case clock s of None \<Rightarrow> Map.empty | Some t \<Rightarrow> [''created_at'' \<mapsto> t]);
               doc = (model_dump v ++ stamp)(''_id'' \<mapsto> PObjectId oid)
           in (Inr (PStr oid),
               s\<lparr>collections := (collections s)(name := collections s name @ [doc]),
                 generated := Suc (generated s)\<rparr>)))"

text \<open>
  Modelled from the spec: \<open>get_documents\<close> of the module \<open>database\<close>, which is not
  among the sources. The spec's \<open>find_all(collection_name, filter)\<close>: the documents
  of the named collection that agree with the filter on each of its keys (an empty filter
  means all documents), in the store's order; an unreachable store signals a failure. The
  spec gives the third argument of the call no meaning, and it is not used.
\<close>

definition matches :: "(string \<times> pyval) list \<Rightarrow> pydict \<Rightarrow> bool" where
  "matches flt doc = list_all (\<lambda>(k, v). doc k = Some v) flt"

definition get_documents_spec ::
  "string \<Rightarrow> (string \<times> pyval) list \<Rightarrow> nat option \<Rightarrow> store \<Rightarrow> string + pydict list" where
  "get_documents_spec name flt n s =
     (case outage s of
        Some msg \<Rightarrow> Inl msg
      | None \<Rightarrow> Inr (filter (matches flt) (collections s name)))"

section \<open>The public paths of a request, as the specification words them\<close>

text \<open>
  The specification's side of the upload loop, to compare the loop with: the number of
  UUIDs an attachment takes (one for its stored name, and one more for a stand-in name when
  the client sent none), the name generated for an attachment that is processed after
  \<open>k\<close> UUIDs were taken (the fresh token, then the client's extension if the name has
  one and \<open>.jpg\<close> otherwise), and the public paths of the attachments in the order
  received.
\<close>

definition has_filename :: "UploadFile \<Rightarrow> bool" where
  "has_filename img = (case filename img of None \<Rightarrow> False | Some f \<Rightarrow> f \<noteq> [])"

definition uuids_taken :: "UploadFile \<Rightarrow> nat" where
  "uuids_taken img = (if has_filename img then 1 else 2)"

definition client_extension :: "UploadFile \<Rightarrow> string" where
  "client_extension img =
     (case filename img of None \<Rightarrow> [] | Some f \<Rightarrow> snd (os_path_splitext f))"

definition generated_name :: "'db env \<Rightarrow> nat \<Rightarrow> UploadFile \<Rightarrow> string" where
  "generated_name e k img =
     uuid_hex_at e (k + uuids_taken img - 1)
       @ (if client_extension img \<noteq> [] then client_extension img else ''.jpg'')"

fun public_paths :: "'db env \<Rightarrow> nat \<Rightarrow> UploadFile list \<Rightarrow> string list" where
  "public_paths e k [] = []"
| "public_paths e k (img # imgs) =
     (''/uploads/'' @ generated_name e k img) # public_paths e (k + uuids_taken img) imgs"

text \<open>The attachments of a request: none when the form has no \<open>images\<close> part.\<close>

definition attachments :: "UploadFile list option \<Rightarrow> UploadFile list" where
  "attachments images = (case images of None \<Rightarrow> [] | Some imgs \<Rightarrow> imgs)"

section \<open>A sample deployment\<close>

text \<open>
  A concrete environment to run the handlers in: the working directory \<open>/srv/app\<close>, a
  random source whose k-th UUID is k, a disk on which every write succeeds but that of the
  bytes \<open>corrupt\<close>, and the storage adapter above, starting from an empty store.
\<close>

definition sample_env :: "store env" where
  "sample_env =
     \<lparr>cwd = ''/srv/app'',
      uuid4_int = (\<lambda>k. k),
      disk = (\<lambda>fs path bytes. if bytes = ''corrupt'' then OpenFailed ''disk full'' else Written),
      text_other = (\<lambda>v. []),
      create_document = create_document_spec,
      get_documents = get_documents_spec\<rparr>"

definition sample_world :: "store world" where
  "sample_world = \<lparr>files = Map.empty, uuid_calls = 0, db = empty_store 0 None\<rparr>"

definition sample_uploads :: "UploadFile list" where
  "sample_uploads =
     [\<lparr>filename = Some ''A.jpg'', file_bytes = ''aaa''\<rparr>,
      \<lparr>filename = Some ''B.jpg'', file_bytes = ''bbb''\<rparr>,
      \<lparr>filename = Some ''C.jpg'', file_bytes = ''ccc''\<rparr>]"

text \<open>The same three uploads, the second of which the disk refuses.\<close>

definition sample_uploads_refused :: "UploadFile list" where
  "sample_uploads_refused =
     [\<lparr>filename = Some ''A.jpg'', file_bytes = ''aaa''\<rparr>,
      \<lparr>filename = Some ''B.jpg'', file_bytes = ''corrupt''\<rparr>,
      \<lparr>filename = Some ''C.jpg'', file_bytes = ''ccc''\<rparr>]"

section \<open>Validation of the listing record\<close>

text \<open>
  Claim C3. Year bounds are inclusive: for every year strictly below 1900 or strictly above
  2100 the construction of the record fails, with an error on the field \<open>year\<close>; for the
  year 1900 and for the year 2100, with a price that is not negative, it succeeds and gives
  the record of the submitted values.
\<close>

theorem year_bounds_inclusive:
  "((y < 1900 \<or> y > 2100) \<longrightarrow>
      (\<exists>errs k. Vehicle mk md y p d urls = Inl errs \<and> (''year'', k) \<in> set errs))
   \<and> (0 \<le> p \<and> (y = 1900 \<or> y = 2100) \<longrightarrow>
      Vehicle mk md y p d urls =
        Inr \<lparr>make_v = mk, model = md, year = y, price = p, description = d, image_urls = urls\<rparr>)"
  by (auto simp: Vehicle_def year_errors_def price_errors_def)

theorem year_bounds_inclusive_witness:
  "(\<exists>errs k. Vehicle ''Toyota'' ''Corolla'' 1899 15000 None [] = Inl errs \<and> (''year'', k) \<in> set errs)
   \<and> (\<exists>errs k. Vehicle ''Toyota'' ''Corolla'' 2101 15000 None [] = Inl errs \<and> (''year'', k) \<in> set errs)
   \<and> Vehicle ''Toyota'' ''Corolla'' 1900 15000 None [] =
        Inr \<lparr>make_v = ''Toyota'', model = ''Corolla'', year = 1900, price = 15000,
             description = None, image_urls = []\<rparr>
   \<and> Vehicle ''Toyota'' ''Corolla'' 2100 15000 None [] =
        Inr \<lparr>make_v = ''Toyota'', model = ''Corolla'', year = 2100, price = 15000,
             description = None, image_urls = []\<rparr>"
  using year_bounds_inclusive [where y = 1899 and mk = "''Toyota''" and md = "''Corolla''"
          and p = 15000 and d = None and urls = "[]"]
        year_bounds_inclusive [where y = 2101 and mk = "''Toyota''" and md = "''Corolla''"
          and p = 15000 and d = None and urls = "[]"]
        year_bounds_inclusive [where y = 1900 and mk = "''Toyota''" and md = "''Corolla''"
          and p = 15000 and d = None and urls = "[]"]
        year_bounds_inclusive [where y = 2100 and mk = "''Toyota''" and md = "''Corolla''"
          and p = 15000 and d = None and urls = "[]"]
  by simp

text \<open>
  Claim C2, as stated, fails: the model puts no constraint on the text of \<open>make\<close> and
  \<open>model\<close>, and a record whose make, or whose model, is the empty string is constructed.
\<close>

theorem empty_names_pass_validation:
  "Vehicle [] ''Corolla'' 2020 15000 None [] =
     Inr \<lparr>make_v = [], model = ''Corolla'', year = 2020, price = 15000,
          description = None, image_urls = []\<rparr>
   \<and> Vehicle ''Toyota'' [] 2020 15000 None [] =
     Inr \<lparr>make_v = ''Toyota'', model = [], year = 2020, price = 15000,
          description = None, image_urls = []\<rparr>"
  by (simp add: Vehicle_def year_errors_def price_errors_def)

text \<open>
  Claim C2, amended. \<open>make\<close> and \<open>model\<close> are required text on which the model puts
  no further constraint: the construction of the record succeeds exactly when the year is
  within 1900 and 2100 and the price is not negative, whatever the make and the model are,
  the empty string included.
\<close>

theorem validation_ignores_names:
  "(\<exists>v. Vehicle mk md y p d urls = Inr v) = (1900 \<le> y \<and> y \<le> 2100 \<and> 0 \<le> p)"
  by (auto simp: Vehicle_def year_errors_def price_errors_def)

section \<open>Failures of create_vehicle\<close>

text \<open>
  Claim C6 does not hold of the code. The record is constructed between the two \<open>try\<close>
  blocks of \<open>create_vehicle\<close>, so a ValidationError is not turned into an HTTPException
  with status 500 and a detail, as a failed file write and a failed insert are: for the
  year 1899 the handler raises the ValidationError itself.
\<close>

theorem validation_error_escapes:
  "create_vehicle e w ''Toyota'' ''Corolla'' 1899 15000 None None =
     (Inl (ValidationError [(''year'', ''greater_than_equal'')]), w)"
  by (simp add: create_vehicle_def Vehicle_def year_errors_def price_errors_def)

section \<open>Serialization of stored documents\<close>

lemma dom_serialize_vehicle:
  "dom (serialize_vehicle t doc) =
     {''id'', ''make'', ''model'', ''year'', ''price'', ''description'', ''image_urls'',
      ''created_at''}"
  unfolding serialize_vehicle_def by (simp add: insert_commute)

text \<open>
  Claim C9. List serialization: an absent identifier is serialized as null and a
  store-generated identifier (an ObjectId) as its text; \<open>make\<close>, \<open>model\<close>, \<open>year\<close>,
  \<open>price\<close>, \<open>description\<close>, \<open>image_urls\<close> and \<open>created_at\<close> pass through as they
  are; a missing \<open>image_urls\<close> becomes the empty sequence; every other key of the raw
  document is dropped. \<open>list_vehicles\<close> returns the serialized documents in the order the
  store gave them, and the empty sequence, not an error, for an empty store.
\<close>

theorem list_serialization_contract:
  "(doc ''_id'' = None \<longrightarrow> serialize_vehicle t doc ''id'' = Some PNone)
   \<and> (\<forall>h. doc ''_id'' = Some (PObjectId h) \<longrightarrow> serialize_vehicle t doc ''id'' = Some (PStr h))
   \<and> (\<forall>k \<in> {''make'', ''model'', ''year'', ''price'', ''description'', ''image_urls'', ''created_at''}.
        \<forall>v. doc k = Some v \<longrightarrow> serialize_vehicle t doc k = Some v)
   \<and> (doc ''image_urls'' = None \<longrightarrow> serialize_vehicle t doc ''image_urls'' = Some (PList []))
   \<and> (\<forall>k. k \<notin> {''id'', ''make'', ''model'', ''year'', ''price'', ''description'', ''image_urls'',
               ''created_at''} \<longrightarrow> serialize_vehicle t doc k = None)
   \<and> (\<forall>docs. get_documents e ''vehicle'' [] None (db w) = Inr docs \<longrightarrow>
         list_vehicles e w = Inr (map (serialize_vehicle (text_other e)) docs))
   \<and> (get_documents e ''vehicle'' [] None (db w) = Inr [] \<longrightarrow> list_vehicles e w = Inr [])"
proof -
  have id_absent: "doc ''_id'' = None \<longrightarrow> serialize_vehicle t doc ''id'' = Some PNone"
    by (simp add: serialize_vehicle_def dict_get_def)
  have id_oid: "\<forall>h. doc ''_id'' = Some (PObjectId h) \<longrightarrow> serialize_vehicle t doc ''id'' = Some (PStr h)"
    by (simp add: serialize_vehicle_def dict_get_def)
  have pass: "\<forall>k \<in> {''make'', ''model'', ''year'', ''price'', ''description'', ''image_urls'', ''created_at''}.
        \<forall>v. doc k = Some v \<longrightarrow> serialize_vehicle t doc k = Some v"
    by (simp add: serialize_vehicle_def dict_get_def dict_get_default_def)
  have dflt: "doc ''image_urls'' = None \<longrightarrow> serialize_vehicle t doc ''image_urls'' = Some (PList [])"
    by (simp add: serialize_vehicle_def dict_get_default_def)
  have drop: "\<forall>k. k \<notin> {''id'', ''make'', ''model'', ''year'', ''price'', ''description'', ''image_urls'',
               ''created_at''} \<longrightarrow> serialize_vehicle t doc k = None"
    using dom_serialize_vehicle [of t doc] by (metis domIff)
  have lst: "\<forall>docs. get_documents e ''vehicle'' [] None (db w) = Inr docs \<longrightarrow>
         list_vehicles e w = Inr (map (serialize_vehicle (text_other e)) docs)"
    by (simp add: list_vehicles_def)
  have emp: "get_documents e ''vehicle'' [] None (db w) = Inr [] \<longrightarrow> list_vehicles e w = Inr []"
    by (simp add: list_vehicles_def)
  from id_absent id_oid pass dflt drop lst emp show ?thesis by blast
qed

theorem list_serialization_contract_witness:
  "serialize_vehicle (\<lambda>v. []) Map.empty ''id'' = Some PNone
   \<and> serialize_vehicle (\<lambda>v. [])
         [''_id'' \<mapsto> PObjectId ''65f0c1d2a3b4c5d6e7f80912'', ''make'' \<mapsto> PStr ''Toyota'',
          ''owner'' \<mapsto> PStr ''dealer''] ''id'' = Some (PStr ''65f0c1d2a3b4c5d6e7f80912'')
   \<and> serialize_vehicle (\<lambda>v. [])
         [''_id'' \<mapsto> PObjectId ''65f0c1d2a3b4c5d6e7f80912'', ''make'' \<mapsto> PStr ''Toyota'',
          ''owner'' \<mapsto> PStr ''dealer''] ''make'' = Some (PStr ''Toyota'')
   \<and> serialize_vehicle (\<lambda>v. [])
         [''_id'' \<mapsto> PObjectId ''65f0c1d2a3b4c5d6e7f80912'', ''make'' \<mapsto> PStr ''Toyota'',
          ''owner'' \<mapsto> PStr ''dealer''] ''image_urls'' = Some (PList [])
   \<and> serialize_vehicle (\<lambda>v. [])
         [''_id'' \<mapsto> PObjectId ''65f0c1d2a3b4c5d6e7f80912'', ''make'' \<mapsto> PStr ''Toyota'',
          ''owner'' \<mapsto> PStr ''dealer''] ''owner'' = None
   \<and> list_vehicles
         \<lparr>cwd = ''/srv/app'', uuid4_int = (\<lambda>k. k), disk = (\<lambda>fs path bytes. Written),
          text_other = (\<lambda>v. []), create_document = (\<lambda>name v s. (Inr PNone, s)),
          get_documents = (\<lambda>name flt n s. Inr s)\<rparr>
         \<lparr>files = Map.empty, uuid_calls = 0, db = []\<rparr> = Inr []"
  using list_serialization_contract [where doc = Map.empty and t = "\<lambda>v. []"
          and w = "\<lparr>files = Map.empty, uuid_calls = 0, db = []\<rparr>"
          and e = "\<lparr>cwd = ''/srv/app'', uuid4_int = (\<lambda>k. k), disk = (\<lambda>fs path bytes. Written),
                   text_other = (\<lambda>v. []), create_document = (\<lambda>name v s. (Inr PNone, s)),
                   get_documents = (\<lambda>name flt n s. Inr s)\<rparr>"]
        list_serialization_contract [where t = "\<lambda>v. []"
          and doc = "[''_id'' \<mapsto> PObjectId ''65f0c1d2a3b4c5d6e7f80912'', ''make'' \<mapsto> PStr ''Toyota'',
                      ''owner'' \<mapsto> PStr ''dealer'']"
          and w = "\<lparr>files = Map.empty, uuid_calls = 0, db = []\<rparr>"
          and e = "\<lparr>cwd = ''/srv/app'', uuid4_int = (\<lambda>k. k), disk = (\<lambda>fs path bytes. Written),
                   text_other = (\<lambda>v. []), create_document = (\<lambda>name v s. (Inr PNone, s)),
                   get_documents = (\<lambda>name flt n s. Inr s)\<rparr>"]
  by simp

text \<open>
  Claim C10, as stated, fails where it says that every missing field is null: for a
  document with no \<open>image_urls\<close> the output holds the empty sequence, not null.
\<close>

theorem missing_image_urls_not_null:
  "serialize_vehicle (\<lambda>v. []) Map.empty ''image_urls'' = Some (PList [])
   \<and> serialize_vehicle (\<lambda>v. []) Map.empty ''image_urls'' \<noteq> Some PNone"
  by (simp add: serialize_vehicle_def dict_get_default_def)

text \<open>
  Claim C10, amended. The output of \<open>serialize_vehicle\<close> has exactly the eight keys
  \<open>id\<close>, \<open>make\<close>, \<open>model\<close>, \<open>year\<close>, \<open>price\<close>, \<open>description\<close>,
  \<open>image_urls\<close>, \<open>created_at\<close>, for every document. The id is a string exactly when
  \<open>_id\<close> is present and truthy, and it is then the text of \<open>_id\<close>; it is null exactly
  when \<open>_id\<close> is absent or falsy (the empty string and 0 among others). A missing
  \<open>make\<close>, \<open>model\<close>, \<open>year\<close>, \<open>price\<close>, \<open>description\<close> or \<open>created_at\<close> is null,
  and a missing \<open>image_urls\<close> is the empty sequence.
\<close>

theorem serialize_vehicle_shape:
  "dom (serialize_vehicle t doc) =
     {''id'', ''make'', ''model'', ''year'', ''price'', ''description'', ''image_urls'',
      ''created_at''}
   \<and> ((\<exists>s. serialize_vehicle t doc ''id'' = Some (PStr s)) = (\<exists>v. doc ''_id'' = Some v \<and> truthy v))
   \<and> ((serialize_vehicle t doc ''id'' = Some PNone) = (\<forall>v. doc ''_id'' = Some v \<longrightarrow> \<not> truthy v))
   \<and> (\<forall>v. doc ''_id'' = Some v \<and> truthy v \<longrightarrow>
         serialize_vehicle t doc ''id'' = Some (PStr (py_str t v)))
   \<and> (\<forall>k \<in> {''make'', ''model'', ''year'', ''price'', ''description'', ''created_at''}.
         doc k = None \<longrightarrow> serialize_vehicle t doc k = Some PNone)
   \<and> (doc ''image_urls'' = None \<longrightarrow> serialize_vehicle t doc ''image_urls'' = Some (PList []))"
proof -
  have a: "(\<exists>s. serialize_vehicle t doc ''id'' = Some (PStr s)) = (\<exists>v. doc ''_id'' = Some v \<and> truthy v)"
    by (cases "doc ''_id''") (simp_all add: serialize_vehicle_def dict_get_def)
  have b: "(serialize_vehicle t doc ''id'' = Some PNone) = (\<forall>v. doc ''_id'' = Some v \<longrightarrow> \<not> truthy v)"
    by (cases "doc ''_id''") (simp_all add: serialize_vehicle_def dict_get_def)
  have c: "\<forall>v. doc ''_id'' = Some v \<and> truthy v \<longrightarrow>
         serialize_vehicle t doc ''id'' = Some (PStr (py_str t v))"
    by (simp add: serialize_vehicle_def dict_get_def)
  have d: "\<forall>k \<in> {''make'', ''model'', ''year'', ''price'', ''description'', ''created_at''}.
         doc k = None \<longrightarrow> serialize_vehicle t doc k = Some PNone"
    by (simp add: serialize_vehicle_def dict_get_def)
  have e: "doc ''image_urls'' = None \<longrightarrow> serialize_vehicle t doc ''image_urls'' = Some (PList [])"
    by (simp add: serialize_vehicle_def dict_get_default_def)
  from dom_serialize_vehicle [of t doc] a b c d e show ?thesis by blast
qed

theorem serialize_vehicle_shape_witness:
  "serialize_vehicle (\<lambda>v. []) [''_id'' \<mapsto> PStr []] ''id'' = Some PNone
   \<and> serialize_vehicle (\<lambda>v. []) [''_id'' \<mapsto> PInt 0] ''id'' = Some PNone
   \<and> serialize_vehicle (\<lambda>v. []) [''_id'' \<mapsto> PStr ''abc''] ''id'' = Some (PStr ''abc'')
   \<and> serialize_vehicle (\<lambda>v. []) [''_id'' \<mapsto> PStr ''abc''] ''make'' = Some PNone
   \<and> serialize_vehicle (\<lambda>v. []) [''_id'' \<mapsto> PStr ''abc''] ''image_urls'' = Some (PList [])"
  using serialize_vehicle_shape [where t = "\<lambda>v. []" and doc = "[''_id'' \<mapsto> PStr []]"]
        serialize_vehicle_shape [where t = "\<lambda>v. []" and doc = "[''_id'' \<mapsto> PInt 0]"]
        serialize_vehicle_shape [where t = "\<lambda>v. []" and doc = "[''_id'' \<mapsto> PStr ''abc'']"]
  by simp

section \<open>The upload loop\<close>

subsection \<open>Generated names\<close>

lemma hex_digit_in: "hex_digit d \<in> set ''0123456789abcdef''"
  unfolding hex_digit_def by (rule nth_mem) simp

lemma set_hex_of: "set (hex_of n k) \<subseteq> set ''0123456789abcdef''"
proof (induction n arbitrary: k)
  case 0 show ?case by simp
next
  case (Suc n)
  have "hex_digit (k mod 16) \<in> set ''0123456789abcdef''" by (rule hex_digit_in)
  with Suc [of "k div 16"] show ?case by simp
qed

lemma length_hex_of: "length (hex_of n k) = n"
  by (induction n arbitrary: k) simp_all

lemma rfind_from_absent: "c \<notin> set xs \<Longrightarrow> rfind_from c xs i best = best"
  by (induction xs arbitrary: i best) auto

lemma rfind_from_lower: "best \<le> i \<Longrightarrow> best \<le> rfind_from c xs i best"
proof (induction xs arbitrary: i best)
  case Nil then show ?case by simp
next
  case (Cons x xs)
  show ?case
  proof (cases "x = c")
    case True
    have "i \<le> rfind_from c xs (i + 1) i" by (rule Cons.IH) simp
    with True Cons.prems show ?thesis by simp
  next
    case False
    have "best \<le> rfind_from c xs (i + 1) best" by (rule Cons.IH) (use Cons.prems in simp)
    with False show ?thesis by simp
  qed
qed

lemma rfind_lower: "- 1 \<le> rfind p c"
  unfolding rfind_def by (rule rfind_from_lower) simp

lemma splitext_no_dot: "CHR ''.'' \<notin> set p \<Longrightarrow> os_path_splitext p = (p, [])"
  using rfind_lower [of p "CHR ''/''"]
  by (simp add: os_path_splitext_def Let_def rfind_def rfind_from_absent)

lemma uuid_hex_no_dot: "CHR ''.'' \<notin> set (uuid_hex_at e k)"
  using set_hex_of [of 32 "uuid4_int e k mod 2 ^ 128"] unfolding uuid_hex_at_def by auto

lemma ext_of_image_name: "ext_or_jpg (''image-'' @ uuid_hex_at e k) = ''.jpg''"
proof -
  have "CHR ''.'' \<notin> set (''image-'' @ uuid_hex_at e k)"
    using uuid_hex_no_dot [of e k] by simp
  then have "os_path_splitext (''image-'' @ uuid_hex_at e k) = (''image-'' @ uuid_hex_at e k, [])"
    by (rule splitext_no_dot)
  then show ?thesis by (simp add: ext_or_jpg_def)
qed

lemma safe_name_for_eq:
  "safe_name_for e w img =
     (generated_name e (uuid_calls w) img, w\<lparr>uuid_calls := uuid_calls w + uuids_taken img\<rparr>)"
proof (cases "has_filename img")
  case True
  then obtain f where f: "filename img = Some f" "f \<noteq> []"
    by (auto simp: has_filename_def split: option.splits)
  then show ?thesis
    by (simp add: safe_name_for_def filename_or_image_def uuid4_hex_def generated_name_def
        uuids_taken_def has_filename_def client_extension_def ext_or_jpg_def Let_def)
next
  case False
  have spl: "os_path_splitext [] = ([], [])"
    by (simp add: splitext_no_dot)
  from False have ce: "client_extension img = []"
    by (auto simp: has_filename_def client_extension_def spl split: option.splits)
  from False have fi: "filename_or_image e w img =
      (''image-'' @ uuid_hex_at e (uuid_calls w), w\<lparr>uuid_calls := Suc (uuid_calls w)\<rparr>)"
    by (auto simp: has_filename_def filename_or_image_def uuid4_hex_def split: option.splits)
  show ?thesis
    using False ce ext_of_image_name [of e "uuid_calls w"]
    by (simp add: safe_name_for_def fi uuid4_hex_def generated_name_def uuids_taken_def)
qed

subsection \<open>The loop and the handler, step by step\<close>

lemma save_image_eq:
  "save_image e w img =
     (case disk e (files w) (os_path_join (UPLOAD_DIR e) (generated_name e (uuid_calls w) img))
             (file_bytes img) of
        Written \<Rightarrow>
          (Inr (''/uploads/'' @ generated_name e (uuid_calls w) img),
           w\<lparr>uuid_calls := uuid_calls w + uuids_taken img,
             files := (files w)(os_path_join (UPLOAD_DIR e) (generated_name e (uuid_calls w) img)
                        \<mapsto> file_bytes img)\<rparr>)
      | OpenFailed msg \<Rightarrow>
          (Inl (HTTPException 500 (''Failed to save image: '' @ msg)),
           w\<lparr>uuid_calls := uuid_calls w + uuids_taken img\<rparr>)
      | CopyFailed part msg \<Rightarrow>
          (Inl (HTTPException 500 (''Failed to save image: '' @ msg)),
           w\<lparr>uuid_calls := uuid_calls w + uuids_taken img,
             files := (files w)(os_path_join (UPLOAD_DIR e) (generated_name e (uuid_calls w) img)
                        \<mapsto> part)\<rparr>))"
  by (simp add: save_image_def safe_name_for_eq split: io_result.splits)

lemma create_vehicle_eq:
  "create_vehicle e w mk md y p d images =
     (case save_images e w (attachments images) [] of
        (Inl x, w1) \<Rightarrow> (Inl x, w1)
      | (Inr urls, w1) \<Rightarrow>
          (case Vehicle mk md y p d urls of
             Inl errs \<Rightarrow> (Inl (ValidationError errs), w1)
           | Inr v \<Rightarrow>
               (case create_document e ''vehicle'' v (db w1) of
                  (Inl msg, db') \<Rightarrow> (Inl (HTTPException 500 msg), w1\<lparr>db := db'\<rparr>)
                | (Inr inserted_id, db') \<Rightarrow>
                    (Inr ([''id'' \<mapsto> inserted_id] ++ model_dump v), w1\<lparr>db := db'\<rparr>))))"
  by (cases images) (simp_all add: create_vehicle_def attachments_def)

lemma save_image_db: "db (snd (save_image e w img)) = db w"
  by (simp add: save_image_eq split: io_result.splits)

lemma save_images_db: "db (snd (save_images e w imgs acc)) = db w"
proof (induction imgs arbitrary: w acc)
  case Nil
  show ?case by simp
next
  case (Cons img imgs)
  obtain r w1 where step: "save_image e w img = (r, w1)" by (cases "save_image e w img")
  have w1: "db w1 = db w" using save_image_db [of e w img] step by simp
  show ?case
  proof (cases r)
    case (Inl x)
    with step w1 show ?thesis by simp
  next
    case (Inr url)
    with step w1 Cons.IH [of w1 "acc @ [url]"] show ?thesis by simp
  qed
qed

lemma save_images_append:
  "save_images e w (xs @ ys) acc =
     (case save_images e w xs acc of
        (Inl x, w1) \<Rightarrow> (Inl x, w1)
      | (Inr urls, w1) \<Rightarrow> save_images e w1 ys urls)"
proof (induction xs arbitrary: w acc)
  case Nil
  show ?case by simp
next
  case (Cons img xs)
  obtain r w1 where step: "save_image e w img = (r, w1)" by (cases "save_image e w img")
  show ?case
  proof (cases r)
    case (Inl x)
    with step show ?thesis by simp
  next
    case (Inr url)
    with step Cons.IH [of w1 "acc @ [url]"] show ?thesis by simp
  qed
qed

lemma save_images_urls:
  "save_images e w imgs acc = (Inr urls, w') \<Longrightarrow>
     urls = acc @ public_paths e (uuid_calls w) imgs"
proof (induction imgs arbitrary: w acc)
  case Nil
  then show ?case by simp
next
  case (Cons img imgs)
  obtain r w1 where step: "save_image e w img = (r, w1)" by (cases "save_image e w img")
  show ?case
  proof (cases r)
    case (Inl x)
    with step Cons.prems show ?thesis by simp
  next
    case (Inr url)
    from step Inr have url: "url = ''/uploads/'' @ generated_name e (uuid_calls w) img"
      and calls: "uuid_calls w1 = uuid_calls w + uuids_taken img"
      by (auto simp: save_image_eq split: io_result.splits)
    from step Inr Cons.prems have "save_images e w1 imgs (acc @ [url]) = (Inr urls, w')"
      by simp
    then have "urls = (acc @ [url]) @ public_paths e (uuid_calls w1) imgs"
      by (rule Cons.IH)
    with url calls show ?thesis by simp
  qed
qed

lemma length_public_paths: "length (public_paths e k imgs) = length imgs"
  by (induction imgs arbitrary: k) simp_all

lemma nth_public_paths:
  "i < length imgs \<Longrightarrow>
     public_paths e k imgs ! i =
       ''/uploads/'' @ generated_name e (k + sum_list (map uuids_taken (take i imgs))) (imgs ! i)"
proof (induction imgs arbitrary: k i)
  case Nil
  then show ?case by simp
next
  case (Cons img imgs)
  show ?case
  proof (cases i)
    case 0
    then show ?thesis by simp
  next
    case (Suc j)
    with Cons.prems have "j < length imgs" by simp
    from Cons.IH [OF this, of "k + uuids_taken img"] Suc show ?thesis
      by (simp add: add.assoc)
  qed
qed

lemma Vehicle_Inr:
  "Vehicle mk md y p d urls = Inr v \<Longrightarrow>
     v = \<lparr>make_v = mk, model = md, year = y, price = p, description = d, image_urls = urls\<rparr>"
  by (auto simp: Vehicle_def Let_def split: if_splits)

lemma save_images_all_written:
  "\<forall>img \<in> set imgs. \<forall>fs path. disk e fs path (file_bytes img) = Written \<Longrightarrow>
     \<exists>w'. save_images e w imgs acc = (Inr (acc @ public_paths e (uuid_calls w) imgs), w')"
proof (induction imgs arbitrary: w acc)
  case Nil
  show ?case by simp
next
  case (Cons img imgs)
  from Cons.prems have wr: "\<And>fs path. disk e fs path (file_bytes img) = Written" by simp
  define w1 where "w1 = snd (save_image e w img)"
  have step: "save_image e w img = (Inr (''/uploads/'' @ generated_name e (uuid_calls w) img), w1)"
    unfolding w1_def by (simp add: save_image_eq wr)
  have calls: "uuid_calls w1 = uuid_calls w + uuids_taken img"
    unfolding w1_def by (simp add: save_image_eq wr)
  from Cons.prems have "\<forall>img \<in> set imgs. \<forall>fs path. disk e fs path (file_bytes img) = Written"
    by simp
  from Cons.IH [OF this, of w1 "acc @ [''/uploads/'' @ generated_name e (uuid_calls w) img]"]
  show ?case using step calls by simp
qed

lemma create_vehicle_success:
  assumes "save_images e w (attachments images) [] = (Inr urls, w1)"
    and "Vehicle mk md y p d urls = Inr v"
    and "create_document e ''vehicle'' v (db w1) = (Inr i, s')"
  shows "create_vehicle e w mk md y p d images =
           (Inr ([''id'' \<mapsto> i] ++ model_dump v), w1\<lparr>db := s'\<rparr>)"
  using assms by (simp add: create_vehicle_eq)

lemma sample_public_paths:
  "public_paths sample_env 0 sample_uploads =
     [''/uploads/'' @ uuid_hex_at sample_env 0 @ ''.jpg'',
      ''/uploads/'' @ uuid_hex_at sample_env 1 @ ''.jpg'',
      ''/uploads/'' @ uuid_hex_at sample_env 2 @ ''.jpg'']"
  by (simp add: sample_uploads_def generated_name_def uuids_taken_def has_filename_def
      client_extension_def os_path_splitext_def rfind_def splitext_loop.simps numeral_2_eq_2)

text \<open>
  Claim C8. Upload order is preserved: when \<open>create_vehicle\<close> succeeds on a request with
  n attachments, the \<open>image_urls\<close> of the response are the public paths of the
  attachments in the order received: there are n of them, and the i-th is
  \<open>/uploads/\<close> followed by the name generated for the i-th attachment.
\<close>

theorem upload_order_preserved:
  assumes "create_vehicle e w mk md y p d images = (Inr resp, w')"
  shows "resp ''image_urls'' =
           Some (PList (map PStr (public_paths e (uuid_calls w) (attachments images))))
         \<and> length (public_paths e (uuid_calls w) (attachments images)) = length (attachments images)
         \<and> (\<forall>i < length (attachments images).
               public_paths e (uuid_calls w) (attachments images) ! i =
                 ''/uploads/'' @ generated_name e
                    (uuid_calls w + sum_list (map uuids_taken (take i (attachments images))))
                    (attachments images ! i))"
proof -
  obtain r1 w1 where s: "save_images e w (attachments images) [] = (r1, w1)"
    by (cases "save_images e w (attachments images) []")
  from assms s obtain urls where r1: "r1 = Inr urls"
    by (cases r1) (simp_all add: create_vehicle_eq)
  from save_images_urls [of e w "attachments images" "[]" urls w1] s r1
  have urls: "urls = public_paths e (uuid_calls w) (attachments images)" by simp
  from assms s r1 obtain v where v: "Vehicle mk md y p d urls = Inr v"
    by (cases "Vehicle mk md y p d urls") (simp_all add: create_vehicle_eq)
  from assms s r1 v obtain i where "resp = [''id'' \<mapsto> i] ++ model_dump v"
    by (cases "create_document e ''vehicle'' v (db w1)"; cases "fst (create_document e ''vehicle'' v (db w1))")
       (auto simp: create_vehicle_eq)
  moreover from Vehicle_Inr [OF v] have "image_urls v = urls" by simp
  ultimately have "resp ''image_urls'' = Some (PList (map PStr urls))"
    by (simp add: model_dump_def map_add_def)
  with urls show ?thesis
    by (simp add: length_public_paths nth_public_paths)
qed

theorem upload_order_preserved_witness:
  "\<exists>resp w'. create_vehicle sample_env sample_world ''Toyota'' ''Corolla'' 2020 15000 None
                (Some sample_uploads) = (Inr resp, w')
      \<and> resp ''image_urls'' =
          Some (PList [PStr (''/uploads/'' @ uuid_hex_at sample_env 0 @ ''.jpg''),
                       PStr (''/uploads/'' @ uuid_hex_at sample_env 1 @ ''.jpg''),
                       PStr (''/uploads/'' @ uuid_hex_at sample_env 2 @ ''.jpg'')])"
proof -
  have "\<forall>img \<in> set sample_uploads. \<forall>fs path. disk sample_env fs path (file_bytes img) = Written"
    by (simp add: sample_uploads_def sample_env_def)
  from save_images_all_written [OF this, of sample_world "[]"]
  obtain w1 where s: "save_images sample_env sample_world (attachments (Some sample_uploads)) [] =
      (Inr (public_paths sample_env 0 sample_uploads), w1)"
    by (auto simp: attachments_def sample_world_def)
  have v: "Vehicle ''Toyota'' ''Corolla'' 2020 15000 None (public_paths sample_env 0 sample_uploads) =
      Inr \<lparr>make_v = ''Toyota'', model = ''Corolla'', year = 2020, price = 15000, description = None,
           image_urls = public_paths sample_env 0 sample_uploads\<rparr>"
    by (simp add: Vehicle_def year_errors_def price_errors_def)
  have dbw1: "db w1 = empty_store 0 None"
    using save_images_db [of sample_env sample_world "attachments (Some sample_uploads)" "[]"] s
    by (simp add: sample_world_def)
  have cd: "create_document sample_env = create_document_spec"
    by (simp add: sample_env_def)
  have "fst (create_document_spec ''vehicle''
       \<lparr>make_v = ''Toyota'', model = ''Corolla'', year = 2020, price = 15000, description = None,
           image_urls = public_paths sample_env 0 sample_uploads\<rparr> (empty_store 0 None)) =
         Inr (PStr (hex_of 24 0))"
    by (simp add: create_document_spec_def empty_store_def Let_def)
  then obtain s' where c: "create_document sample_env ''vehicle''
       \<lparr>make_v = ''Toyota'', model = ''Corolla'', year = 2020, price = 15000, description = None,
           image_urls = public_paths sample_env 0 sample_uploads\<rparr> (db w1) =
         (Inr (PStr (hex_of 24 0)), s')"
    unfolding cd dbw1 by (metis prod.collapse)
  note r = create_vehicle_success [OF s v c]
  from upload_order_preserved [OF r] have
    "([''id'' \<mapsto> PStr (hex_of 24 0)] ++ model_dump
        \<lparr>make_v = ''Toyota'', model = ''Corolla'', year = 2020, price = 15000, description = None,
           image_urls = public_paths sample_env 0 sample_uploads\<rparr>) ''image_urls'' =
       Some (PList (map PStr (public_paths sample_env (uuid_calls sample_world)
                                (attachments (Some sample_uploads)))))"
    by (rule conjunct1)
  then have img: "([''id'' \<mapsto> PStr (hex_of 24 0)] ++ model_dump
        \<lparr>make_v = ''Toyota'', model = ''Corolla'', year = 2020, price = 15000, description = None,
           image_urls = public_paths sample_env 0 sample_uploads\<rparr>) ''image_urls'' =
       Some (PList [PStr (''/uploads/'' @ uuid_hex_at sample_env 0 @ ''.jpg''),
                       PStr (''/uploads/'' @ uuid_hex_at sample_env 1 @ ''.jpg''),
                       PStr (''/uploads/'' @ uuid_hex_at sample_env 2 @ ''.jpg'')])"
    by (simp add: sample_world_def attachments_def sample_public_paths)
  show ?thesis
    by (intro exI conjI) (rule r, rule img)
qed

subsection \<open>The extension of a client's name, and the destination path\<close>









lemma sample_env_fields:
  "cwd sample_env = ''/srv/app''"
  "disk sample_env fs path bytes = (if bytes = ''corrupt'' then OpenFailed ''disk full'' else Written)"
  "create_document sample_env = create_document_spec"
  "get_documents sample_env = get_documents_spec"
  by (simp_all add: sample_env_def)

lemma sample_world_fields:
  "files sample_world = Map.empty" "uuid_calls sample_world = 0" "db sample_world = empty_store 0 None"
  by (simp_all add: sample_world_def)


subsection \<open>Tokens of different calls\<close>








section \<open>Failures of the upload loop and the order of validation and storage\<close>

lemma save_images_stored:
  "save_images e w imgs acc = (Inr urls, w') \<Longrightarrow>
   \<forall>u \<in> set acc. \<exists>nm. u = ''/uploads/'' @ nm \<and> os_path_join (UPLOAD_DIR e) nm \<in> dom (files w) \<Longrightarrow>
   \<forall>u \<in> set urls. \<exists>nm. u = ''/uploads/'' @ nm \<and> os_path_join (UPLOAD_DIR e) nm \<in> dom (files w')"
proof (induction imgs arbitrary: w acc)
  case Nil
  then show ?case by simp
next
  case (Cons img imgs)
  obtain r w1 where step: "save_image e w img = (r, w1)" by (cases "save_image e w img")
  show ?case
  proof (cases r)
    case (Inl x)
    with step Cons.prems(1) show ?thesis by simp
  next
    case (Inr url)
    let ?nm = "generated_name e (uuid_calls w) img"
    from step Inr have url: "url = ''/uploads/'' @ ?nm"
      and fs: "files w1 = (files w)(os_path_join (UPLOAD_DIR e) ?nm \<mapsto> file_bytes img)"
      by (auto simp: save_image_eq split: io_result.splits)
    have "\<forall>u \<in> set (acc @ [url]).
            \<exists>nm. u = ''/uploads/'' @ nm \<and> os_path_join (UPLOAD_DIR e) nm \<in> dom (files w1)"
    proof
      fix u assume "u \<in> set (acc @ [url])"
      then consider "u \<in> set acc" | "u = url" by auto
      then show "\<exists>nm. u = ''/uploads/'' @ nm \<and> os_path_join (UPLOAD_DIR e) nm \<in> dom (files w1)"
      proof cases
        case 1
        with Cons.prems(2) obtain nm where
          "u = ''/uploads/'' @ nm" "os_path_join (UPLOAD_DIR e) nm \<in> dom (files w)" by blast
        then show ?thesis by (auto simp: fs)
      next
        case 2
        then show ?thesis using url by (auto simp: fs)
      qed
    qed
    moreover from step Inr Cons.prems(1) have "save_images e w1 imgs (acc @ [url]) = (Inr urls, w')"
      by simp
    ultimately show ?thesis by (rule Cons.IH [rotated])
  qed
qed

text \<open>
  Claim C5. Abort on file-write failure: if the attachments before the i-th were written
  and the write of the i-th fails, \<open>create_vehicle\<close> raises an HTTPException with status
  500 whose detail starts with \<open>Failed to save image: \<close>, whatever the fields are. The
  store is left as it was (no insert), no later attachment is processed (no further UUID is
  taken and no other path of the file system changes), and the files written for the
  earlier attachments are still there.
\<close>

theorem abort_on_write_failure:
  assumes i: "i < length imgs"
    and before: "save_images e w (take i imgs) [] = (Inr urls, wi)"
    and fails: "disk e (files wi)
                  (os_path_join (UPLOAD_DIR e) (generated_name e (uuid_calls wi) (imgs ! i)))
                  (file_bytes (imgs ! i)) \<noteq> Written"
  shows "\<exists>msg wf.
           create_vehicle e w mk md y p d (Some imgs) =
             (Inl (HTTPException 500 (''Failed to save image: '' @ msg)), wf)
           \<and> db wf = db w
           \<and> uuid_calls wf = uuid_calls wi + uuids_taken (imgs ! i)
           \<and> (\<forall>path. path \<noteq> os_path_join (UPLOAD_DIR e) (generated_name e (uuid_calls wi) (imgs ! i))
                 \<longrightarrow> files wf path = files wi path)
           \<and> dom (files wi) \<subseteq> dom (files wf)
           \<and> (\<forall>u \<in> set urls. \<exists>nm. u = ''/uploads/'' @ nm
                 \<and> os_path_join (UPLOAD_DIR e) nm \<in> dom (files wf))"
proof -
  let ?dest = "os_path_join (UPLOAD_DIR e) (generated_name e (uuid_calls wi) (imgs ! i))"
  from fails obtain msg wf where
    step: "save_image e wi (imgs ! i) =
             (Inl (HTTPException 500 (''Failed to save image: '' @ msg)), wf)"
    and calls: "uuid_calls wf = uuid_calls wi + uuids_taken (imgs ! i)"
    and dbf: "db wf = db wi"
    and others: "\<forall>path. path \<noteq> ?dest \<longrightarrow> files wf path = files wi path"
    and grows: "dom (files wi) \<subseteq> dom (files wf)"
    by (cases "disk e (files wi) ?dest (file_bytes (imgs ! i))")
       (auto simp: save_image_eq)
  have dbi: "db wi = db w"
    using save_images_db [of e w "take i imgs" "[]"] before by simp
  have split: "imgs = take i imgs @ imgs ! i # drop (Suc i) imgs"
    using i by (rule id_take_nth_drop)
  have "save_images e w imgs [] =
          save_images e w (take i imgs @ imgs ! i # drop (Suc i) imgs) []"
    using split by simp
  also have "\<dots> = save_images e wi (imgs ! i # drop (Suc i) imgs) urls"
    by (simp add: save_images_append before)
  also have "\<dots> = (Inl (HTTPException 500 (''Failed to save image: '' @ msg)), wf)"
    by (simp add: step)
  finally have loop: "save_images e w imgs [] =
      (Inl (HTTPException 500 (''Failed to save image: '' @ msg)), wf)" .
  have run: "create_vehicle e w mk md y p d (Some imgs) =
      (Inl (HTTPException 500 (''Failed to save image: '' @ msg)), wf)"
    by (simp add: create_vehicle_eq attachments_def loop)
  have earlier: "\<forall>u \<in> set urls. \<exists>nm. u = ''/uploads/'' @ nm
                 \<and> os_path_join (UPLOAD_DIR e) nm \<in> dom (files wi)"
    using save_images_stored [OF before] by simp
  have kept: "\<forall>u \<in> set urls. \<exists>nm. u = ''/uploads/'' @ nm
                 \<and> os_path_join (UPLOAD_DIR e) nm \<in> dom (files wf)"
    using earlier grows by blast
  from run dbf dbi calls others grows kept show ?thesis
    by (intro exI conjI) simp_all
qed

theorem abort_on_write_failure_witness:
  "\<exists>msg wf.
     create_vehicle sample_env sample_world ''Toyota'' ''Corolla'' 2020 15000 None
         (Some sample_uploads_refused) =
       (Inl (HTTPException 500 (''Failed to save image: '' @ msg)), wf)
     \<and> db wf = db sample_world
     \<and> os_path_join (UPLOAD_DIR sample_env) (uuid_hex_at sample_env 0 @ ''.jpg'') \<in> dom (files wf)"
proof -
  let ?a = "\<lparr>filename = Some ''A.jpg'', file_bytes = ''aaa''\<rparr>"
  have gn: "generated_name sample_env 0 ?a = uuid_hex_at sample_env 0 @ ''.jpg''"
    by (simp add: generated_name_def uuids_taken_def has_filename_def client_extension_def
        os_path_splitext_def rfind_def splitext_loop.simps)
  define wi where "wi = snd (save_images sample_env sample_world (take 1 sample_uploads_refused) [])"
  have before: "save_images sample_env sample_world (take 1 sample_uploads_refused) [] =
      (Inr [''/uploads/'' @ uuid_hex_at sample_env 0 @ ''.jpg''], wi)"
    unfolding wi_def
    by (simp add: sample_uploads_refused_def save_image_eq sample_env_fields sample_world_fields gn)
  have i: "1 < length sample_uploads_refused"
    by (simp add: sample_uploads_refused_def)
  have fails: "disk sample_env (files wi)
      (os_path_join (UPLOAD_DIR sample_env)
         (generated_name sample_env (uuid_calls wi) (sample_uploads_refused ! 1)))
      (file_bytes (sample_uploads_refused ! 1)) \<noteq> Written"
    by (simp add: sample_env_fields sample_uploads_refused_def)
  from abort_on_write_failure [OF i before fails, of "''Toyota''" "''Corolla''" 2020 15000 None]
  obtain msg wf where
    run: "create_vehicle sample_env sample_world ''Toyota'' ''Corolla'' 2020 15000 None
         (Some sample_uploads_refused) =
       (Inl (HTTPException 500 (''Failed to save image: '' @ msg)), wf)"
    and dbf: "db wf = db sample_world"
    and kept: "\<forall>u \<in> set [''/uploads/'' @ uuid_hex_at sample_env 0 @ ''.jpg''].
        \<exists>nm. u = ''/uploads/'' @ nm \<and> os_path_join (UPLOAD_DIR sample_env) nm \<in> dom (files wf)"
    by blast
  from kept have "os_path_join (UPLOAD_DIR sample_env) (uuid_hex_at sample_env 0 @ ''.jpg'')
      \<in> dom (files wf)"
    by simp
  with run dbf show ?thesis by (intro exI conjI)
qed

lemma Vehicle_Inl_any:
  "Vehicle mk md y p d urls = Inl errs \<Longrightarrow> Vehicle mk md y p d urls' = Inl errs"
  by (auto simp: Vehicle_def Let_def split: if_splits)

text \<open>
  Claim C4. Validation before storage: whatever \<open>create_document\<close> does, a request whose
  fields fail the validation of the record leaves the store unchanged and has no success
  response; the store changes only by the one call of \<open>create_document\<close> on the
  collection \<open>vehicle\<close> with a record that passed validation, and a success response
  is returned only for fields that passed validation.
\<close>

theorem validation_before_storage:
  assumes "create_vehicle e w mk md y p d images = (r, w')"
  shows "((\<exists>urls errs. Vehicle mk md y p d urls = Inl errs) \<longrightarrow>
            db w' = db w \<and> (\<exists>x. r = Inl x))
         \<and> (db w' \<noteq> db w \<longrightarrow>
              (\<exists>urls v. Vehicle mk md y p d urls = Inr v
                 \<and> db w' = snd (create_document e ''vehicle'' v (db w))))
         \<and> ((\<exists>resp. r = Inr resp) \<longrightarrow> (\<exists>urls v. Vehicle mk md y p d urls = Inr v))"
proof -
  obtain r1 w1 where s: "save_images e w (attachments images) [] = (r1, w1)"
    by (cases "save_images e w (attachments images) []")
  have db1: "db w1 = db w"
    using save_images_db [of e w "attachments images" "[]"] s by simp
  show ?thesis
  proof (cases r1)
    case (Inl x)
    with assms s have "r = Inl x" "w' = w1" by (simp_all add: create_vehicle_eq)
    with db1 show ?thesis by simp
  next
    case urls: (Inr urls)
    show ?thesis
    proof (cases "Vehicle mk md y p d urls")
      case (Inl errs)
      with assms s urls have "r = Inl (ValidationError errs)" "w' = w1"
        by (simp_all add: create_vehicle_eq)
      with db1 show ?thesis by simp
    next
      case v: (Inr v)
      obtain res s' where c: "create_document e ''vehicle'' v (db w1) = (res, s')"
        by (cases "create_document e ''vehicle'' v (db w1)")
      from assms s urls v c have "db w' = s'"
        by (cases res) (auto simp: create_vehicle_eq)
      with c db1 have "db w' = snd (create_document e ''vehicle'' v (db w))" by simp
      moreover have "\<not> (\<exists>us errs. Vehicle mk md y p d us = Inl errs)"
        using v Vehicle_Inl_any [of mk md y p d _ _ urls] by auto
      ultimately show ?thesis using v by blast
    qed
  qed
qed

lemma sample_create:
  "\<exists>w1. create_vehicle sample_env sample_world ''Toyota'' ''Corolla'' 2020 15000 None
            (Some sample_uploads) =
          (Inr ([''id'' \<mapsto> PStr (hex_of 24 0)] ++ model_dump
                 \<lparr>make_v = ''Toyota'', model = ''Corolla'', year = 2020, price = 15000,
                  description = None, image_urls = public_paths sample_env 0 sample_uploads\<rparr>),
           w1\<lparr>db := snd (create_document_spec ''vehicle''
                 \<lparr>make_v = ''Toyota'', model = ''Corolla'', year = 2020, price = 15000,
                  description = None, image_urls = public_paths sample_env 0 sample_uploads\<rparr>
                 (empty_store 0 None))\<rparr>)"
proof -
  let ?v = "\<lparr>make_v = ''Toyota'', model = ''Corolla'', year = 2020, price = 15000,
             description = None, image_urls = public_paths sample_env 0 sample_uploads\<rparr>"
  have "\<forall>img \<in> set sample_uploads. \<forall>fs path. disk sample_env fs path (file_bytes img) = Written"
    by (simp add: sample_uploads_def sample_env_fields)
  from save_images_all_written [OF this, of sample_world "[]"]
  obtain w1 where s: "save_images sample_env sample_world (attachments (Some sample_uploads)) [] =
      (Inr (public_paths sample_env 0 sample_uploads), w1)"
    by (auto simp: attachments_def sample_world_fields)
  have v: "Vehicle ''Toyota'' ''Corolla'' 2020 15000 None (public_paths sample_env 0 sample_uploads) =
      Inr ?v"
    by (simp add: Vehicle_def year_errors_def price_errors_def)
  have dbw1: "db w1 = empty_store 0 None"
    using save_images_db [of sample_env sample_world "attachments (Some sample_uploads)" "[]"] s
    by (simp add: sample_world_fields)
  have "fst (create_document_spec ''vehicle'' ?v (empty_store 0 None)) = Inr (PStr (hex_of 24 0))"
    by (simp add: create_document_spec_def empty_store_def Let_def)
  then have c: "create_document sample_env ''vehicle'' ?v (db w1) =
         (Inr (PStr (hex_of 24 0)), snd (create_document_spec ''vehicle'' ?v (empty_store 0 None)))"
    unfolding sample_env_fields dbw1 by (metis prod.collapse)
  from create_vehicle_success [OF s v c] show ?thesis by (rule exI)
qed

theorem validation_before_storage_witness:
  "db (snd (create_vehicle sample_env sample_world ''Toyota'' ''Corolla'' 1899 15000 None
             (Some sample_uploads))) = db sample_world
   \<and> (\<exists>x. fst (create_vehicle sample_env sample_world ''Toyota'' ''Corolla'' 1899 15000 None
             (Some sample_uploads)) = Inl x)
   \<and> (\<exists>urls v. Vehicle ''Toyota'' ''Corolla'' 2020 15000 None urls = Inr v
        \<and> db (snd (create_vehicle sample_env sample_world ''Toyota'' ''Corolla'' 2020 15000 None
                    (Some sample_uploads))) =
            snd (create_document sample_env ''vehicle'' v (db sample_world)))"
proof -
  let ?bad = "create_vehicle sample_env sample_world ''Toyota'' ''Corolla'' 1899 15000 None
                (Some sample_uploads)"
  let ?good = "create_vehicle sample_env sample_world ''Toyota'' ''Corolla'' 2020 15000 None
                (Some sample_uploads)"
  have inv: "\<exists>urls errs. Vehicle ''Toyota'' ''Corolla'' 1899 15000 None urls = Inl errs"
    by (simp add: Vehicle_def year_errors_def price_errors_def)
  have "?bad = (fst ?bad, snd ?bad)" by simp
  from validation_before_storage [OF this] inv
  have bad: "db (snd ?bad) = db sample_world \<and> (\<exists>x. fst ?bad = Inl x)" by blast
  from sample_create obtain w1 where
    run: "snd ?good = w1\<lparr>db := snd (create_document_spec ''vehicle''
                 \<lparr>make_v = ''Toyota'', model = ''Corolla'', year = 2020, price = 15000,
                  description = None, image_urls = public_paths sample_env 0 sample_uploads\<rparr>
                 (empty_store 0 None))\<rparr>"
    by force
  have "generated (db (snd ?good)) = Suc 0"
    unfolding run by (simp add: create_document_spec_def empty_store_def Let_def)
  moreover have "generated (db sample_world) = 0"
    by (simp add: sample_world_fields empty_store_def)
  ultimately have changed: "db (snd ?good) \<noteq> db sample_world" by auto
  have "?good = (fst ?good, snd ?good)" by simp
  from validation_before_storage [OF this] changed
  have "\<exists>urls v. Vehicle ''Toyota'' ''Corolla'' 2020 15000 None urls = Inr v
        \<and> db (snd ?good) = snd (create_document sample_env ''vehicle'' v (db sample_world))"
    by blast
  with bad show ?thesis by (intro conjI) blast+
qed

section \<open>Round trip through the store\<close>

text \<open>
  Claim C1. Round trip, against the storage adapter as the specification describes it: on
  an empty store, \<open>create_vehicle\<close> with make Toyota, model Corolla, year 2020, price
  15000, description \<open>clean title\<close> and no attachment succeeds, and \<open>list_vehicles\<close>
  then returns exactly one entry, whose make, model, year, price and description are the
  submitted values, whose \<open>image_urls\<close> is the empty sequence and whose \<open>id\<close> is a
  non-empty text, the identifier the creation returned.
\<close>

theorem round_trip:
  assumes none: "attachments images = []"
    and cd: "create_document e = create_document_spec"
    and gd: "get_documents e = get_documents_spec"
    and empty: "db w = empty_store n c"
  shows "\<exists>resp w' listing t.
           create_vehicle e w ''Toyota'' ''Corolla'' 2020 15000 (Some ''clean title'') images =
             (Inr resp, w')
           \<and> list_vehicles e w' = Inr [listing]
           \<and> listing ''make'' = Some (PStr ''Toyota'')
           \<and> listing ''model'' = Some (PStr ''Corolla'')
           \<and> listing ''year'' = Some (PInt 2020)
           \<and> listing ''price'' = Some (PFloat 15000)
           \<and> listing ''description'' = Some (PStr ''clean title'')
           \<and> listing ''image_urls'' = Some (PList [])
           \<and> listing ''id'' = Some (PStr t) \<and> t \<noteq> []
           \<and> resp ''id'' = Some (PStr t)"
proof -
  let ?v = "\<lparr>make_v = ''Toyota'', model = ''Corolla'', year = 2020, price = 15000,
             description = Some ''clean title'', image_urls = []\<rparr>"
  let ?oid = "hex_of 24 n"
  let ?stamp = "case c of None \<Rightarrow> Map.empty | Some t \<Rightarrow> [''created_at'' \<mapsto> t]"
  let ?doc = "(model_dump ?v ++ ?stamp)(''_id'' \<mapsto> PObjectId ?oid)"
  define s' where "s' = snd (create_document_spec ''vehicle'' ?v (empty_store n c))"
  have ins: "create_document_spec ''vehicle'' ?v (empty_store n c) = (Inr (PStr ?oid), s')"
    unfolding s'_def by (simp add: create_document_spec_def empty_store_def Let_def)
  have up: "outage s' = None"
    unfolding s'_def by (simp add: create_document_spec_def empty_store_def Let_def)
  have coll: "collections s' ''vehicle'' = [?doc]"
    unfolding s'_def by (simp add: create_document_spec_def empty_store_def Let_def)
  have s: "save_images e w (attachments images) [] = (Inr [], w)"
    by (simp add: none)
  have v: "Vehicle ''Toyota'' ''Corolla'' 2020 15000 (Some ''clean title'') [] = Inr ?v"
    by (simp add: Vehicle_def year_errors_def price_errors_def)
  have c: "create_document e ''vehicle'' ?v (db w) = (Inr (PStr ?oid), s')"
    by (simp add: cd empty ins)
  note run = create_vehicle_success [OF s v c]
  let ?listing = "serialize_vehicle (text_other e) ?doc"
  have lst: "list_vehicles e (w\<lparr>db := s'\<rparr>) = Inr [?listing]"
    by (simp add: list_vehicles_def gd get_documents_spec_def up coll matches_def)
  have mk: "?listing ''make'' = Some (PStr ''Toyota'')"
    by (cases c) (simp_all add: serialize_vehicle_def dict_get_def model_dump_def map_add_def)
  have md: "?listing ''model'' = Some (PStr ''Corolla'')"
    by (cases c) (simp_all add: serialize_vehicle_def dict_get_def model_dump_def map_add_def)
  have yr: "?listing ''year'' = Some (PInt 2020)"
    by (cases c) (simp_all add: serialize_vehicle_def dict_get_def model_dump_def map_add_def)
  have pr: "?listing ''price'' = Some (PFloat 15000)"
    by (cases c) (simp_all add: serialize_vehicle_def dict_get_def model_dump_def map_add_def)
  have ds: "?listing ''description'' = Some (PStr ''clean title'')"
    by (cases c)
       (simp_all add: serialize_vehicle_def dict_get_def model_dump_def map_add_def opt_str_def)
  have iu: "?listing ''image_urls'' = Some (PList [])"
    by (cases c)
       (simp_all add: serialize_vehicle_def dict_get_default_def model_dump_def map_add_def)
  have id: "?listing ''id'' = Some (PStr ?oid)"
    by (simp add: serialize_vehicle_def dict_get_def)
  have ne: "?oid \<noteq> []"
    using length_hex_of [of 24 n] by auto
  have rid: "([''id'' \<mapsto> PStr ?oid] ++ model_dump ?v) ''id'' = Some (PStr ?oid)"
    by (simp add: model_dump_def map_add_def)
  show ?thesis
    apply (intro exI conjI)
    apply (rule run)
    apply (rule lst)
    apply (rule mk)
    apply (rule md)
    apply (rule yr)
    apply (rule pr)
    apply (rule ds)
    apply (rule iu)
    apply (rule id)
    apply (rule ne)
    apply (rule rid)
    done
qed

theorem round_trip_witness:
  "\<exists>resp w' listing t.
     create_vehicle sample_env sample_world ''Toyota'' ''Corolla'' 2020 15000
         (Some ''clean title'') None = (Inr resp, w')
     \<and> list_vehicles sample_env w' = Inr [listing]
     \<and> listing ''make'' = Some (PStr ''Toyota'')
     \<and> listing ''model'' = Some (PStr ''Corolla'')
     \<and> listing ''year'' = Some (PInt 2020)
     \<and> listing ''price'' = Some (PFloat 15000)
     \<and> listing ''description'' = Some (PStr ''clean title'')
     \<and> listing ''image_urls'' = Some (PList [])
     \<and> listing ''id'' = Some (PStr t) \<and> t \<noteq> []
     \<and> resp ''id'' = Some (PStr t)"
proof -
  have a: "attachments None = []" by (simp add: attachments_def)
  show ?thesis
    by (rule round_trip [OF a sample_env_fields(3) sample_env_fields(4) sample_world_fields(3)])
qed

end
